theory Spec2Isabelle
  imports Main "HOL-Library.Log_Nat"
begin

section \<open>Python numbers\<close>

text \<open>
  The exceptions that the modelled code paths can raise. \<open>OSError\<close> stands for a
  failure of the font loader used by \<open>draw_text\<close>.
\<close>

datatype error = ValueError | TypeError | ZeroDivisionError | IndexError | OSError

datatype 'a result = Return 'a | Raise error

text \<open>
  A bounding box holds Python \<open>int\<close> and \<open>float\<close> objects. An \<open>int\<close> is unbounded; a
  \<open>float\<close> is a finite binary64 value, kept as the rational it denotes (infinities and
  NaN are not represented). Every float operation computes the exact result and rounds
  it with \<open>fl\<close>: to 53 significant bits, nearest value, ties to the even significand.
  The exponent range of binary64 is not modelled, so \<open>fl\<close> agrees with the hardware for
  magnitudes between \<open>2\<^sup>-\<^sup>1\<^sup>0\<^sup>2\<^sup>2\<close> and \<open>2\<^sup>1\<^sup>0\<^sup>2\<^sup>4\<close>.
\<close>

datatype num = PyInt int | PyFloat rat

definition pow2 :: "int \<Rightarrow> rat" where
  "pow2 e = (if 0 \<le> e then 2 ^ nat e else 1 / 2 ^ nat (- e))"

definition ilog2 :: "rat \<Rightarrow> int" where
  "ilog2 a = (let (p, q) = quotient_of a; e0 = bitlen p - bitlen q
              in if pow2 e0 \<le> a then e0 else e0 - 1)"

definition round_half_even :: "rat \<Rightarrow> int" where
  "round_half_even m = (let n = \<lfloor>m\<rfloor>; r = m - of_int n in
      if r < 1 / 2 then n else if 1 / 2 < r then n + 1 else if even n then n else n + 1)"

definition fl :: "rat \<Rightarrow> rat" where
  "fl x = (if x = 0 then 0 else
      let e = ilog2 \<bar>x\<bar> - 52 in of_int (round_half_even (x / pow2 e)) * pow2 e)"

definition trunc :: "rat \<Rightarrow> int" where
  "trunc x = (if 0 \<le> x then \<lfloor>x\<rfloor> else \<lceil>x\<rceil>)"

fun val :: "num \<Rightarrow> rat" where
  "val (PyInt n) = of_int n"
| "val (PyFloat r) = r"


fun to_float :: "num \<Rightarrow> rat" where
  "to_float (PyInt n) = fl (of_int n)"
| "to_float (PyFloat r) = r"

text \<open>\<open>a + b\<close>, \<open>a - b\<close>, \<open>a * b\<close>: exact on two ints, otherwise a rounded float.\<close>

fun num_add :: "num \<Rightarrow> num \<Rightarrow> num" where
  "num_add (PyInt a) (PyInt b) = PyInt (a + b)"
| "num_add a b = PyFloat (fl (to_float a + to_float b))"

fun num_sub :: "num \<Rightarrow> num \<Rightarrow> num" where
  "num_sub (PyInt a) (PyInt b) = PyInt (a - b)"
| "num_sub a b = PyFloat (fl (to_float a - to_float b))"

fun num_mul :: "num \<Rightarrow> num \<Rightarrow> num" where
  "num_mul (PyInt a) (PyInt b) = PyInt (a * b)"
| "num_mul a b = PyFloat (fl (to_float a * to_float b))"

text \<open>\<open>a / b\<close>: always a float; the quotient of two ints is rounded once.\<close>

fun num_truediv :: "num \<Rightarrow> num \<Rightarrow> error + num" where
  "num_truediv (PyInt a) (PyInt b) =
     (if b = 0 then Inl ZeroDivisionError else Inr (PyFloat (fl (of_int a / of_int b))))"
| "num_truediv a b =
     (if val b = 0 then Inl ZeroDivisionError
      else Inr (PyFloat (fl (to_float a / to_float b))))"

text \<open>\<open>a // 2\<close>: floor division, an int for an int and a float for a float.\<close>

fun num_floordiv2 :: "num \<Rightarrow> num" where
  "num_floordiv2 (PyInt a) = PyInt (a div 2)"
| "num_floordiv2 (PyFloat r) = PyFloat (of_int \<lfloor>r / 2\<rfloor>)"


definition num_lt :: "num \<Rightarrow> num \<Rightarrow> bool" where
  "num_lt a b = (val a < val b)"

definition truthy :: "num \<Rightarrow> bool" where
  "truthy a = (val a \<noteq> 0)"

text \<open>\<open>int(a)\<close>: truncation toward zero.\<close>

fun py_int :: "num \<Rightarrow> int" where
  "py_int (PyInt a) = a"
| "py_int (PyFloat r) = trunc r"

section \<open>Pillow images\<close>

text \<open>
  The image library is external to the repository. Its primitives are modelled for the
  two modes that image files commonly decode to, \<open>RGB\<close> (no alpha channel) and \<open>RGBA\<close>.
  A pixel is four bytes; an image is its mode, its size and its pixels.
\<close>

datatype mode = RGB | RGBA

type_synonym pixel = "nat \<times> nat \<times> nat \<times> nat"

record image =
  mode :: mode
  width :: int
  height :: int
  pix :: "int \<Rightarrow> int \<Rightarrow> pixel"

definition white :: pixel where
  "white = (255, 255, 255, 255)"

fun alpha :: "pixel \<Rightarrow> nat" where
  "alpha (r, g, b, a) = a"

text \<open>A pixel whose four channels are bytes.\<close>

definition byte_pixel :: "pixel \<Rightarrow> bool" where
  "byte_pixel p = (case p of (r, g, b, a) \<Rightarrow> r \<le> 255 \<and> g \<le> 255 \<and> b \<le> 255 \<and> a \<le> 255)"

text \<open>
  \<open>Image.new(mode, size, color)\<close> with mode \<open>RGBA\<close>: a negative size is a \<open>ValueError\<close>,
  a size that is not a pair of ints a \<open>TypeError\<close>.
\<close>

definition Image_new :: "num \<times> num \<Rightarrow> pixel \<Rightarrow> error + image" where
  "Image_new sz color =
     (case sz of (sw, sh) \<Rightarrow>
        if val sw < 0 \<or> val sh < 0 then Inl ValueError
        else (case (sw, sh) of
                (PyInt w, PyInt h) \<Rightarrow>
                  Inr \<lparr>mode = RGBA, width = w, height = h, pix = (\<lambda>x y. color)\<rparr>
              | _ \<Rightarrow> Inl TypeError))"

text \<open>The rounding division by 255 and the blend of Pillow's paste routine.\<close>

definition DIV255 :: "nat \<Rightarrow> nat" where
  "DIV255 a = (let tmp = a + 128 in (tmp div 256 + tmp) div 256)"

definition BLEND :: "nat \<Rightarrow> nat \<Rightarrow> nat \<Rightarrow> nat" where
  "BLEND msk in1 in2 = DIV255 (in1 * (255 - msk) + in2 * msk)"

fun blend_pixel :: "nat \<Rightarrow> pixel \<Rightarrow> pixel \<Rightarrow> pixel" where
  "blend_pixel m (r1, g1, b1, a1) (r2, g2, b2, a2) =
     (BLEND m r1 r2, BLEND m g1 g2, BLEND m b1 b2, BLEND m a1 a2)"

text \<open>\<open>im.convert(mode)\<close>: an image without alpha channel is fully opaque.\<close>

definition convert :: "mode \<Rightarrow> image \<Rightarrow> image" where
  "convert m im =
     (if mode im = m then im
      else im\<lparr>mode := m, pix := (\<lambda>x y. case pix im x y of (r, g, b, a) \<Rightarrow> (r, g, b, 255))\<rparr>)"

text \<open>
  \<open>dst.paste(im, box, mask)\<close> with a two-element box. The source is converted to the
  mode of the destination unless the destination is \<open>RGB\<close> and the source has alpha. The
  region is clipped to the destination, and an empty region returns at once. A mask
  whose mode has no alpha channel is a \<open>ValueError\<close> (bad transparency mask); with a
  mask every byte of the region is blended by the mask's alpha, without one it is copied.
\<close>

definition paste_img :: "image \<Rightarrow> image \<Rightarrow> num \<times> num \<Rightarrow> image option \<Rightarrow> error + image" where
  "paste_img dst im box msk =
     (case box of
        (PyInt x0, PyInt y0) \<Rightarrow>
          (let im' = (if mode dst \<noteq> mode im \<and> (mode dst \<noteq> RGB \<or> mode im \<noteq> RGBA)
                      then convert (mode dst) im else im);
               cx0 = max x0 0; cx1 = min (x0 + width im) (width dst);
               cy0 = max y0 0; cy1 = min (y0 + height im) (height dst);
               inside = (\<lambda>x y. cx0 \<le> x \<and> x < cx1 \<and> cy0 \<le> y \<and> y < cy1)
           in case msk of
                None \<Rightarrow>
                  Inr (dst\<lparr>pix := (\<lambda>x y. if inside x y then pix im' (x - x0) (y - y0)
                                         else pix dst x y)\<rparr>)
              | Some m \<Rightarrow>
                  if width m \<noteq> width im \<or> height m \<noteq> height im then Inl ValueError
                  else if cx1 \<le> cx0 \<or> cy1 \<le> cy0 then Inr dst
                  else if mode m \<noteq> RGBA then Inl ValueError
                  else Inr (dst\<lparr>pix := (\<lambda>x y.
                         if inside x y
                         then blend_pixel (alpha (pix m (x - x0) (y - y0))) (pix dst x y)
                                (pix im' (x - x0) (y - y0))
                         else pix dst x y)\<rparr>))
      | _ \<Rightarrow> Inl TypeError)"

text \<open>
  \<open>im.resize(size, resample, box, reducing_gap)\<close>: a size equal to the image's own
  returns a copy; otherwise each side must be at least 1. The resampling filter that
  computes the new pixels is a parameter of the model.
\<close>

type_synonym resampler = "image \<Rightarrow> int \<Rightarrow> int \<Rightarrow> int \<Rightarrow> int \<Rightarrow> pixel"

definition Image_resize :: "resampler \<Rightarrow> image \<Rightarrow> num \<times> num \<Rightarrow> error + image" where
  "Image_resize rs im sz =
     (case sz of (sw, sh) \<Rightarrow>
        if val sw = of_int (width im) \<and> val sh = of_int (height im) then Inr im
        else (case (sw, sh) of
                (PyInt w, PyInt h) \<Rightarrow>
                  if w < 1 \<or> h < 1 then Inl ValueError
                  else Inr \<lparr>mode = mode im, width = w, height = h, pix = rs im w h\<rparr>
              | _ \<Rightarrow> Inl TypeError))"

section \<open>Objects\<close>

text \<open>
  Pillow images and \<open>PymeImage\<close> wrappers are objects with identity: \<open>paste\<close> changes an
  image in place, and a wrapper's \<open>_image\<close> attribute is reassigned by \<open>resize\<close> and
  \<open>add_padding\<close>. The heap maps image addresses to images and wrapper addresses to the
  address held in \<open>_image\<close>. Every call of \<open>paste\<close> is recorded in \<open>pastes\<close> with its
  destination, source and mask.
\<close>

record heap =
  images :: "nat \<Rightarrow> image"
  wrappers :: "nat \<Rightarrow> nat"
  next_image :: nat
  next_wrapper :: nat
  pastes :: "(nat \<times> nat \<times> nat option) list"

definition alloc_image :: "image \<Rightarrow> heap \<Rightarrow> nat \<times> heap" where
  "alloc_image im h =
     (next_image h, h\<lparr>images := (images h)(next_image h := im), next_image := Suc (next_image h)\<rparr>)"


definition paste :: "nat \<Rightarrow> nat \<Rightarrow> num \<times> num \<Rightarrow> nat option \<Rightarrow> heap \<Rightarrow> unit result \<times> heap" where
  "paste dst im box msk h =
     (let h1 = h\<lparr>pastes := pastes h @ [(dst, im, msk)]\<rparr> in
      case paste_img (images h dst) (images h im) box (map_option (images h) msk) of
        Inl e \<Rightarrow> (Raise e, h1)
      | Inr d \<Rightarrow> (Return (), h1\<lparr>images := (images h1)(dst := d)\<rparr>))"

section \<open>PymeImage\<close>

text \<open>The canvas of a wrapper: the image its \<open>_image\<close> attribute refers to.\<close>

definition canvas :: "heap \<Rightarrow> nat \<Rightarrow> image" where
  "canvas h self = images h (wrappers h self)"

definition center_image :: "nat \<Rightarrow> num list \<Rightarrow> heap \<Rightarrow> error + (num \<times> num \<times> num \<times> num)" where
  "center_image self bbox h =
     (if length bbox < 4 then Inl IndexError
      else
        let width_bbox = num_sub (bbox ! 2) (bbox ! 0);
            height_bbox = num_sub (bbox ! 3) (bbox ! 1);
            width_img = PyInt (width (canvas h self));
            height_img = PyInt (height (canvas h self))
        in Inr (num_add (bbox ! 0) (num_floordiv2 (num_sub width_bbox width_img)),
                num_add (bbox ! 1) (num_floordiv2 (num_sub height_bbox height_img)),
                num_add (bbox ! 0) (num_floordiv2 (num_add width_bbox width_img)),
                num_add (bbox ! 1) (num_floordiv2 (num_add height_bbox height_img))))"

definition add_padding :: "nat \<Rightarrow> num \<Rightarrow> num \<Rightarrow> num \<Rightarrow> num \<Rightarrow> heap \<Rightarrow> unit result \<times> heap" where
  "add_padding self left top' right bottom h =
     (if \<not> (truthy left \<or> truthy top' \<or> truthy right \<or> truthy bottom) then (Return (), h)
      else
        let (result, h1) = alloc_image (canvas h self) h;
            result_width = PyInt (width (images h1 result));
            result_height = PyInt (height (images h1 result));
            new_size0 = result_width;
            new_size1 = result_height;
            paste_coords0 = PyInt 0;
            paste_coords1 = PyInt 0;
            (paste_coords0, new_size0) =
              (if num_lt (PyInt 0) left then (left, num_add new_size0 left)
               else (paste_coords0, new_size0));
            (paste_coords1, new_size1) =
              (if num_lt (PyInt 0) top' then (top', num_add new_size1 top')
               else (paste_coords1, new_size1));
            new_size0 =
              (if num_lt result_width right then num_add new_size0 (num_sub right result_width)
               else new_size0);
            new_size1 =
              (if num_lt result_height bottom then num_add new_size1 (num_sub bottom result_height)
               else new_size1)
        in case Image_new (new_size0, new_size1) white of
             Inl e \<Rightarrow> (Raise e, h1)
           | Inr bg \<Rightarrow>
               let (background, h2) = alloc_image bg h1;
                   (r, h3) = paste background result (paste_coords0, paste_coords1) (Some result) h2
               in case r of
                    Raise e \<Rightarrow> (Raise e, h3)
                  | Return u \<Rightarrow> (Return (), h3\<lparr>wrappers := (wrappers h3)(self := background)\<rparr>))"

text \<open>\<open>im.resize(size, ...)\<close> on an object: the result is a new image object.\<close>

definition pil_resize :: "resampler \<Rightarrow> nat \<Rightarrow> num \<times> num \<Rightarrow> heap \<Rightarrow> nat result \<times> heap" where
  "pil_resize rs im sz h =
     (case Image_resize rs (images h im) sz of
        Inl e \<Rightarrow> (Raise e, h)
      | Inr r \<Rightarrow> (let (a, h1) = alloc_image r h in (Return a, h1)))"

definition resize :: "resampler \<Rightarrow> nat \<Rightarrow> num \<times> num \<Rightarrow> bool \<Rightarrow> heap \<Rightarrow> nat result \<times> heap" where
  "resize rs self sz keep_ratio h =
     (if keep_ratio then
        let self_width = PyInt (width (canvas h self));
            self_height = PyInt (height (canvas h self))
        in case num_truediv (fst sz) self_width of
             Inl e \<Rightarrow> (Raise e, h)
           | Inr width_quotient \<Rightarrow>
               (case num_truediv (snd sz) self_height of
                  Inl e \<Rightarrow> (Raise e, h)
                | Inr height_quotient \<Rightarrow>
                    if num_lt width_quotient height_quotient then
                      let new_width = PyInt (py_int (num_mul self_width width_quotient));
                          new_height = PyInt (py_int (num_mul self_height width_quotient));
                          (r, h1) = pil_resize rs (wrappers h self) (new_width, new_height) h
                      in case r of
                           Raise e \<Rightarrow> (Raise e, h1)
                         | Return a \<Rightarrow> (Return self, h1\<lparr>wrappers := (wrappers h1)(self := a)\<rparr>)
                    else
                      let new_width = PyInt (py_int (num_mul self_width height_quotient));
                          new_height = PyInt (py_int (num_mul self_height height_quotient));
                          (r, h1) = pil_resize rs (wrappers h self) (new_width, new_height) h
                      in case r of
                           Raise e \<Rightarrow> (Raise e, h1)
                         | Return a \<Rightarrow> (Return self, h1\<lparr>wrappers := (wrappers h1)(self := a)\<rparr>))
      else
        let (r, h1) = pil_resize rs (wrappers h self) sz h
        in case r of
             Raise e \<Rightarrow> (Raise e, h1)
           | Return a \<Rightarrow> (Return self, h1\<lparr>wrappers := (wrappers h1)(self := a)\<rparr>))"






section \<open>Example objects\<close>

text \<open>
  Concrete images and heaps on which the theorems below are instantiated: images of
  one colour, a resampling filter that yields opaque grey, and a heap with a
  100 by 100 canvas (image 0, wrapped by wrapper 0) and a 30 by 20 content image
  (image 1, wrapped by wrapper 1).
\<close>

definition flat :: "mode \<Rightarrow> int \<Rightarrow> int \<Rightarrow> pixel \<Rightarrow> image" where
  "flat m w h p = \<lparr>mode = m, width = w, height = h, pix = (\<lambda>x y. p)\<rparr>"

definition grey_resampler :: resampler where
  "grey_resampler im w h x y = (128, 128, 128, 255)"

definition example_heap :: "mode \<Rightarrow> mode \<Rightarrow> heap" where
  "example_heap m1 m2 =
     \<lparr>images = (\<lambda>a. if a = 0 then flat m1 100 100 (1, 2, 3, 255) else flat m2 30 20 (9, 9, 9, 255)),
      wrappers = (\<lambda>w. w), next_image = 2, next_wrapper = 2, pastes = []\<rparr>"

text \<open>A heap whose only image is a 1 by 1 canvas holding one fully transparent pixel.\<close>

definition transparent_heap :: heap where
  "transparent_heap =
     \<lparr>images = (\<lambda>a. flat RGBA 1 1 (0, 0, 0, 0)), wrappers = (\<lambda>w. 0), next_image = 1,
      next_wrapper = 1, pastes = []\<rparr>"

text \<open>A heap whose only image is an opaque \<open>n\<close> by \<open>n\<close> canvas.\<close>

definition square_heap :: "int \<Rightarrow> heap" where
  "square_heap n =
     \<lparr>images = (\<lambda>a. flat RGBA n n (1, 2, 3, 255)), wrappers = (\<lambda>w. 0), next_image = 1,
      next_wrapper = 1, pastes = []\<rparr>"

section \<open>The centering rule\<close>

lemma div2_shift: "(a + w) div 2 = (a - w) div 2 + (w::int)"
  by presburger

text \<open>
  C6. For an outer box of four integers and a content of width \<open>w\<close> and height \<open>h\<close>,
  \<open>_center_image\<close> returns the box whose left edge is
  \<open>left + (outer width - w) // 2\<close>, whose top edge is \<open>top + (outer height - h) // 2\<close>
  (floor division), and whose right and bottom edges lie exactly \<open>w\<close> and \<open>h\<close> further,
  for all integers, also when the content is larger than the outer box.
\<close>

theorem center_image_centered:
  "center_image self [PyInt l, PyInt t, PyInt r, PyInt b] h =
     Inr (PyInt (l + (r - l - width (canvas h self)) div 2),
          PyInt (t + (b - t - height (canvas h self)) div 2),
          PyInt (l + (r - l - width (canvas h self)) div 2 + width (canvas h self)),
          PyInt (t + (b - t - height (canvas h self)) div 2 + height (canvas h self)))"
  by (simp add: center_image_def div2_shift)

theorem center_image_centered_witness:
  "center_image 0 [PyInt 0, PyInt 0, PyInt 51, PyInt 50] (example_heap RGBA RGBA) =
     Inr (PyInt (- 25), PyInt (- 25), PyInt 75, PyInt 75)"
  using center_image_centered [of 0 0 0 51 50 "example_heap RGBA RGBA"]
  by (simp add: canvas_def example_heap_def flat_def)

section \<open>Validation of the bounding box\<close>



section \<open>Padding\<close>

lemma DIV255_255: "i \<le> 255 \<Longrightarrow> DIV255 (i * 255) = i"
proof -
  assume b: "i \<le> 255"
  have q: "(i * 255 + 128) div 256 = (if i \<le> 128 then i else i - 1)"
    by (rule div_nat_eqI) (use b in \<open>auto\<close>)
  have "((if i \<le> 128 then i else i - 1) + (i * 255 + 128)) div 256 = i"
    by (rule div_nat_eqI) (use b in \<open>auto\<close>)
  then show ?thesis by (simp add: DIV255_def Let_def q)
qed


lemma BLEND_opaque: "i \<le> 255 \<Longrightarrow> BLEND 255 d i = i"
  by (simp add: BLEND_def DIV255_255)

lemma BLEND_transparent: "d \<le> 255 \<Longrightarrow> BLEND 0 d i = d"
  by (simp add: BLEND_def DIV255_255)

lemma blend_pixel_opaque:
  "byte_pixel p \<Longrightarrow> alpha p = 255 \<Longrightarrow> blend_pixel (alpha p) d p = p"
  by (cases p; cases d) (simp add: byte_pixel_def BLEND_opaque)

lemma blend_pixel_transparent: "alpha p = 0 \<Longrightarrow> blend_pixel (alpha p) white p = white"
  by (cases p) (simp add: white_def BLEND_transparent)

lemma add_padding_unfold:
  assumes nz: "l \<noteq> 0 \<or> t \<noteq> 0 \<or> r \<noteq> 0 \<or> b \<noteq> 0"
    and ox: "ox = (if 0 < l then l else 0)" and oy: "oy = (if 0 < t then t else 0)"
    and nw: "nw = width (canvas h self) + ox
               + (if width (canvas h self) < r then r - width (canvas h self) else 0)"
    and nh: "nh = height (canvas h self) + oy
               + (if height (canvas h self) < b then b - height (canvas h self) else 0)"
    and bg: "bg = \<lparr>mode = RGBA, width = nw, height = nh, pix = (\<lambda>x y. white)\<rparr>"
    and h2: "h2 = h\<lparr>images := (images h)(next_image h := canvas h self, Suc (next_image h) := bg),
                   next_image := Suc (Suc (next_image h)),
                   pastes := pastes h @ [(Suc (next_image h), next_image h, Some (next_image h))]\<rparr>"
  shows "add_padding self (PyInt l) (PyInt t) (PyInt r) (PyInt b) h =
    (if nw < 0 \<or> nh < 0
     then (Raise ValueError,
           h\<lparr>images := (images h)(next_image h := canvas h self),
              next_image := Suc (next_image h)\<rparr>)
     else case paste_img bg (canvas h self) (PyInt ox, PyInt oy) (Some (canvas h self)) of
            Inl e \<Rightarrow> (Raise e, h2)
          | Inr d \<Rightarrow> (Return (), h2\<lparr>images := (images h2)(Suc (next_image h) := d),
                                     wrappers := (wrappers h)(self := Suc (next_image h))\<rparr>))"
proof -
  have tr: "truthy (PyInt l) \<or> truthy (PyInt t) \<or> truthy (PyInt r) \<or> truthy (PyInt b)"
    using nz by (simp add: truthy_def)
  show ?thesis
    unfolding h2 bg nw nh ox oy
    by (cases "0 < l"; cases "0 < t"; cases "width (canvas h self) < r";
        cases "height (canvas h self) < b")
       (simp_all add: add_padding_def tr alloc_image_def paste_def Image_new_def canvas_def Let_def
          num_lt_def split: sum.splits)
qed

lemma paste_img_padding:
  assumes md: "mode c = RGBA" and o: "0 \<le> ox" "0 \<le> oy"
    and fit: "ox + width c \<le> nw" "oy + height c \<le> nh"
  shows "paste_img \<lparr>mode = RGBA, width = nw, height = nh, pix = (\<lambda>x y. white)\<rparr> c
           (PyInt ox, PyInt oy) (Some c) =
         Inr \<lparr>mode = RGBA, width = nw, height = nh,
              pix = (\<lambda>x y. if ox \<le> x \<and> x < ox + width c \<and> oy \<le> y \<and> y < oy + height c
                            then blend_pixel (alpha (pix c (x - ox) (y - oy))) white
                                   (pix c (x - ox) (y - oy))
                            else white)\<rparr>"
proof -
  have m: "max ox 0 = ox" "max oy 0 = oy" "min (ox + width c) nw = ox + width c"
    "min (oy + height c) nh = oy + height c"
    using o fit by simp_all
  show ?thesis
  proof (cases "0 < width c \<and> 0 < height c")
    case True
    then show ?thesis by (simp add: paste_img_def md m Let_def cong: if_cong)
  next
    case False
    then have e: "(\<lambda>x y. if ox \<le> x \<and> x < ox + width c \<and> oy \<le> y \<and> y < oy + height c
                            then blend_pixel (alpha (pix c (x - ox) (y - oy))) white
                                   (pix c (x - ox) (y - oy))
                            else white) = (\<lambda>x y. white)"
      by (intro ext) auto
    from False show ?thesis unfolding e by (auto simp add: paste_img_def md m Let_def)
  qed
qed

lemma add_padding_canvas_aux:
  assumes nz: "l \<noteq> 0 \<or> t \<noteq> 0 \<or> r \<noteq> 0 \<or> b \<noteq> 0"
    and dims: "0 \<le> width (canvas h self)" "0 \<le> height (canvas h self)"
    and md: "mode (canvas h self) = RGBA"
    and ox: "ox = (if 0 < l then l else 0)" and oy: "oy = (if 0 < t then t else 0)"
    and nw: "nw = width (canvas h self) + ox
               + (if width (canvas h self) < r then r - width (canvas h self) else 0)"
    and nh: "nh = height (canvas h self) + oy
               + (if height (canvas h self) < b then b - height (canvas h self) else 0)"
  shows "\<exists>h'. add_padding self (PyInt l) (PyInt t) (PyInt r) (PyInt b) h = (Return (), h') \<and>
     wrappers h' = (wrappers h)(self := Suc (next_image h)) \<and>
     next_image h' = Suc (Suc (next_image h)) \<and>
     canvas h' self =
       \<lparr>mode = RGBA, width = nw, height = nh,
        pix = (\<lambda>x y. if ox \<le> x \<and> x < ox + width (canvas h self)
                          \<and> oy \<le> y \<and> y < oy + height (canvas h self)
                       then blend_pixel (alpha (pix (canvas h self) (x - ox) (y - oy))) white
                              (pix (canvas h self) (x - ox) (y - oy))
                       else white)\<rparr>"
proof -
  have o: "0 \<le> ox" "0 \<le> oy" by (simp_all add: ox oy)
  have fit: "ox + width (canvas h self) \<le> nw" "oy + height (canvas h self) \<le> nh"
    by (simp_all add: nw nh)
  have nn: "\<not> (nw < 0 \<or> nh < 0)" using o fit dims by linarith
  show ?thesis
    unfolding add_padding_unfold [OF nz ox oy nw nh refl refl] paste_img_padding [OF md o fit]
    using nn by (simp add: canvas_def)
qed

lemma add_padding_canvas:
  assumes nz: "l \<noteq> 0 \<or> t \<noteq> 0 \<or> r \<noteq> 0 \<or> b \<noteq> 0"
    and dims: "0 \<le> width (canvas h self)" "0 \<le> height (canvas h self)"
    and md: "mode (canvas h self) = RGBA"
  shows "\<exists>h'. add_padding self (PyInt l) (PyInt t) (PyInt r) (PyInt b) h = (Return (), h') \<and>
     wrappers h' = (wrappers h)(self := Suc (next_image h)) \<and>
     next_image h' = Suc (Suc (next_image h)) \<and>
     canvas h' self =
       \<lparr>mode = RGBA,
        width = width (canvas h self) + (if 0 < l then l else 0)
                  + (if width (canvas h self) < r then r - width (canvas h self) else 0),
        height = height (canvas h self) + (if 0 < t then t else 0)
                  + (if height (canvas h self) < b then b - height (canvas h self) else 0),
        pix = (\<lambda>x y. if (if 0 < l then l else 0) \<le> x
                          \<and> x < (if 0 < l then l else 0) + width (canvas h self)
                          \<and> (if 0 < t then t else 0) \<le> y
                          \<and> y < (if 0 < t then t else 0) + height (canvas h self)
                       then blend_pixel
                              (alpha (pix (canvas h self) (x - (if 0 < l then l else 0))
                                        (y - (if 0 < t then t else 0))))
                              white
                              (pix (canvas h self) (x - (if 0 < l then l else 0))
                                 (y - (if 0 < t then t else 0)))
                       else white)\<rparr>"
  by (rule add_padding_canvas_aux [OF nz dims md refl refl refl refl])




text \<open>
  C2, amended. For integer arguments that are not all zero, on an \<open>RGBA\<close> canvas of width
  \<open>W\<close> and height \<open>H\<close>, \<open>add_padding\<close> returns, and the new canvas is \<open>RGBA\<close>, of width
  \<open>W + (left if left > 0 else 0) + (right - W if right > W else 0)\<close> and the symmetric
  height; for positive \<open>left\<close>, \<open>top\<close> with \<open>right \<le> W\<close>, \<open>bottom \<le> H\<close> that is
  \<open>(W + left, H + top)\<close>. The original content is composited onto opaque white at offset
  \<open>(left if left > 0 else 0, top if top > 0 else 0)\<close> with its own alpha as the mask: every
  pixel is blended with white by its alpha, so a fully opaque pixel appears unchanged, and
  every pixel outside the pasted area is opaque white.
\<close>

theorem add_padding_composites:
  assumes nz: "l \<noteq> 0 \<or> t \<noteq> 0 \<or> r \<noteq> 0 \<or> b \<noteq> 0"
    and dims: "0 \<le> width (canvas h self)" "0 \<le> height (canvas h self)"
    and md: "mode (canvas h self) = RGBA"
  shows "\<exists>h'. add_padding self (PyInt l) (PyInt t) (PyInt r) (PyInt b) h = (Return (), h') \<and>
     mode (canvas h' self) = RGBA \<and>
     width (canvas h' self) =
       width (canvas h self) + (if 0 < l then l else 0)
         + (if width (canvas h self) < r then r - width (canvas h self) else 0) \<and>
     height (canvas h' self) =
       height (canvas h self) + (if 0 < t then t else 0)
         + (if height (canvas h self) < b then b - height (canvas h self) else 0) \<and>
     (0 < l \<and> 0 < t \<and> r \<le> width (canvas h self) \<and> b \<le> height (canvas h self) \<longrightarrow>
        width (canvas h' self) = width (canvas h self) + l \<and>
        height (canvas h' self) = height (canvas h self) + t) \<and>
     (\<forall>x y. 0 \<le> x \<and> x < width (canvas h self) \<and> 0 \<le> y \<and> y < height (canvas h self) \<longrightarrow>
        pix (canvas h' self) ((if 0 < l then l else 0) + x) ((if 0 < t then t else 0) + y) =
          blend_pixel (alpha (pix (canvas h self) x y)) white (pix (canvas h self) x y)) \<and>
     (\<forall>x y. 0 \<le> x \<and> x < width (canvas h self) \<and> 0 \<le> y \<and> y < height (canvas h self) \<and>
            byte_pixel (pix (canvas h self) x y) \<and> alpha (pix (canvas h self) x y) = 255 \<longrightarrow>
        pix (canvas h' self) ((if 0 < l then l else 0) + x) ((if 0 < t then t else 0) + y) =
          pix (canvas h self) x y) \<and>
     (\<forall>x y. \<not> ((if 0 < l then l else 0) \<le> x \<and> x < (if 0 < l then l else 0) + width (canvas h self) \<and>
             (if 0 < t then t else 0) \<le> y \<and> y < (if 0 < t then t else 0) + height (canvas h self)) \<longrightarrow>
        pix (canvas h' self) x y = white)"
proof -
  define ox where "ox = (if 0 < l then l else 0)"
  define oy where "oy = (if 0 < t then t else 0)"
  define nw where "nw = width (canvas h self) + ox
      + (if width (canvas h self) < r then r - width (canvas h self) else 0)"
  define nh where "nh = height (canvas h self) + oy
      + (if height (canvas h self) < b then b - height (canvas h self) else 0)"
  from add_padding_canvas_aux [OF nz dims md ox_def oy_def nw_def nh_def]
  obtain h' where r: "add_padding self (PyInt l) (PyInt t) (PyInt r) (PyInt b) h = (Return (), h')"
    and c: "canvas h' self =
       \<lparr>mode = RGBA, width = nw, height = nh,
        pix = (\<lambda>x y. if ox \<le> x \<and> x < ox + width (canvas h self)
                          \<and> oy \<le> y \<and> y < oy + height (canvas h self)
                       then blend_pixel (alpha (pix (canvas h self) (x - ox) (y - oy))) white
                              (pix (canvas h self) (x - ox) (y - oy))
                       else white)\<rparr>"
    by blast
  have 1: "mode (canvas h' self) = RGBA" "width (canvas h' self) = nw"
    "height (canvas h' self) = nh"
    by (simp_all add: c)
  have 2: "pix (canvas h' self) (ox + x) (oy + y) =
      blend_pixel (alpha (pix (canvas h self) x y)) white (pix (canvas h self) x y)"
    if "0 \<le> x \<and> x < width (canvas h self) \<and> 0 \<le> y \<and> y < height (canvas h self)" for x y
    using that by (simp add: c)
  have 3: "pix (canvas h' self) (ox + x) (oy + y) = pix (canvas h self) x y"
    if "0 \<le> x \<and> x < width (canvas h self) \<and> 0 \<le> y \<and> y < height (canvas h self) \<and>
        byte_pixel (pix (canvas h self) x y) \<and> alpha (pix (canvas h self) x y) = 255" for x y
    using that 2 [of x y] blend_pixel_opaque [of "pix (canvas h self) x y" white] by simp
  have 4: "pix (canvas h' self) x y = white"
    if "\<not> (ox \<le> x \<and> x < ox + width (canvas h self) \<and> oy \<le> y \<and> y < oy + height (canvas h self))"
    for x y
    using that by (auto simp add: c)
  have 5: "0 < l \<and> 0 < t \<and> r \<le> width (canvas h self) \<and> b \<le> height (canvas h self) \<longrightarrow>
        nw = width (canvas h self) + l \<and> nh = height (canvas h self) + t"
    by (simp add: nw_def nh_def ox_def oy_def)
  show ?thesis
    unfolding ox_def [symmetric] oy_def [symmetric]
    using r 1 2 3 4 5 by (intro exI [of _ h']) (simp add: nw_def nh_def)
qed

theorem add_padding_composites_witness:
  "\<exists>h'. add_padding 0 (PyInt 10) (PyInt 10) (PyInt 50) (PyInt 50) (example_heap RGBA RGB)
          = (Return (), h') \<and>
        mode (canvas h' 0) = RGBA \<and> width (canvas h' 0) = 110 \<and> height (canvas h' 0) = 110 \<and>
        pix (canvas h' 0) 10 10 = (1, 2, 3, 255) \<and> pix (canvas h' 0) 9 10 = white"
proof -
  have nz: "(10::int) \<noteq> 0 \<or> (10::int) \<noteq> 0 \<or> (50::int) \<noteq> 0 \<or> (50::int) \<noteq> 0" by simp
  have c: "canvas (example_heap RGBA RGB) 0 = flat RGBA 100 100 (1, 2, 3, 255)"
    by (simp add: canvas_def example_heap_def)
  have dims: "0 \<le> width (canvas (example_heap RGBA RGB) 0)"
    "0 \<le> height (canvas (example_heap RGBA RGB) 0)"
    and md: "mode (canvas (example_heap RGBA RGB) 0) = RGBA"
    by (simp_all add: c flat_def)
  from add_padding_composites [OF nz dims md] obtain h' where
    r: "add_padding 0 (PyInt 10) (PyInt 10) (PyInt 50) (PyInt 50) (example_heap RGBA RGB)
          = (Return (), h')"
    and m: "mode (canvas h' 0) = RGBA"
    and w: "width (canvas h' 0) = 110" and hh: "height (canvas h' 0) = 110"
    and op: "\<forall>x y. 0 \<le> x \<and> x < 100 \<and> 0 \<le> y \<and> y < 100 \<longrightarrow>
        pix (canvas h' 0) (10 + x) (10 + y) = (1, 2, 3, 255)"
    and out: "\<forall>x y. \<not> (10 \<le> x \<and> x < 110 \<and> 10 \<le> y \<and> y < 110) \<longrightarrow>
        pix (canvas h' 0) x y = white"
    unfolding c by (auto simp: flat_def byte_pixel_def)
  from op [rule_format, of 0 0] have "pix (canvas h' 0) 10 10 = (1, 2, 3, 255)" by simp
  moreover from out [rule_format, of 9 10] have "pix (canvas h' 0) 9 10 = white" by simp
  ultimately show ?thesis using r m w hh by blast
qed

text \<open>
  The original content does not appear unchanged in general: a fully transparent pixel
  of the canvas is opaque white after \<open>add_padding(1, 1, 0, 0)\<close>.
\<close>

theorem add_padding_transparent_counterexample:
  "pix (canvas (snd (add_padding 0 (PyInt 1) (PyInt 1) (PyInt 0) (PyInt 0) transparent_heap)) 0) 1 1
     = (255, 255, 255, 255) \<and>
   pix (canvas transparent_heap 0) 0 0 = (0, 0, 0, 0)"
proof -
  have nz: "(1::int) \<noteq> 0 \<or> (1::int) \<noteq> 0 \<or> (0::int) \<noteq> 0 \<or> (0::int) \<noteq> 0" by simp
  have c: "canvas transparent_heap 0 = flat RGBA 1 1 (0, 0, 0, 0)"
    by (simp add: canvas_def transparent_heap_def)
  have dims: "0 \<le> width (canvas transparent_heap 0)" "0 \<le> height (canvas transparent_heap 0)"
    and md: "mode (canvas transparent_heap 0) = RGBA"
    by (simp_all add: c flat_def)
  from add_padding_canvas [OF nz dims md] obtain h' where
    r: "add_padding 0 (PyInt 1) (PyInt 1) (PyInt 0) (PyInt 0) transparent_heap = (Return (), h')"
    and p: "pix (canvas h' 0) 1 1 = blend_pixel 0 white (0, 0, 0, 0)"
    unfolding c by (auto simp: flat_def)
  have "blend_pixel 0 white (0, 0, 0, 0) = (255, 255, 255, 255)"
    by (simp add: white_def BLEND_transparent)
  with r p show ?thesis by (simp add: c flat_def)
qed




section \<open>Resizing\<close>

lemma float_11_60: "trunc (fl (fl 11 * fl (60 / 11))) = 59"
  by code_simp

text \<open>
  C3 asks that \<open>resize(size, keep_ratio=True)\<close> makes at least one axis match \<open>size\<close>
  exactly, and both when the two ratios are equal. On an 11 by 11 image and the size
  (60, 60) both ratios are the float \<open>60 / 11\<close>, and \<open>int(11 * (60 / 11))\<close> is 59: the
  product rounds to the float just below 60 and \<open>int\<close> truncates it. The result is 59 by 59.
\<close>

theorem resize_misses_target:
  "fst (resize grey_resampler 0 (PyInt 60, PyInt 60) True (square_heap 11)) = Return 0 \<and>
   width (canvas (snd (resize grey_resampler 0 (PyInt 60, PyInt 60) True (square_heap 11))) 0) = 59 \<and>
   height (canvas (snd (resize grey_resampler 0 (PyInt 60, PyInt 60) True (square_heap 11))) 0) = 59"
  by (simp add: resize_def pil_resize_def Image_resize_def alloc_image_def canvas_def
      square_heap_def flat_def num_lt_def Let_def float_11_60)

section \<open>Fractional boxes\<close>





section \<open>The paste step\<close>







end
